theory Spec2Isabelle
  imports Main "HOL-Library.Sublist"
begin

section \<open>Python values, text and built-ins used by yaml_to_html.py\<close>

text \<open>
  A Python \<open>str\<close> is a sequence of Unicode code points, so text is modelled as a list of
  code points (natural numbers), not of bytes: indexing and iteration over a \<open>str\<close> see
  one code point at a time. ASCII literals of the source are written with \<open>ascii\<close>.
\<close>

type_synonym pystr = "nat list"

definition ascii :: "string \<Rightarrow> pystr" where
  "ascii s = map of_char s"

text \<open>The em-dash U+2014 used by the source as placeholder and as time separator.\<close>

definition em_dash :: pystr where
  "em_dash = [8212]"

text \<open>
  The values \<open>yaml.safe_load\<close> hands to the program: null, booleans, integers, text,
  sequences and mappings. A mapping keeps its insertion order, so it is an association
  list; a real \<open>dict\<close> has pairwise different keys. Floats, timestamps and binary
  scalars are not modelled.
\<close>

datatype pyval =
    PNone
  | PBool bool
  | PInt int
  | PStr pystr
  | PList "pyval list"
  | PDict "(pyval \<times> pyval) list"

datatype py_error = AttributeError | TypeError | KeyError | IndexError

text \<open>
  Two built-ins depend on the Unicode character database, which is no part of the
  repository: \<open>repr\<close> of a \<open>str\<close> (which characters are printable) and the case mapping
  of non-ASCII characters in \<open>str.capitalize\<close>. Both are parameters of the model.
\<close>

record py_builtins =
  repr_text :: "pystr \<Rightarrow> pystr"
  capitalize_unicode :: "pystr \<Rightarrow> pystr"

text \<open>Truth value testing (\<open>not x\<close>, \<open>if x\<close>, \<open>x or y\<close>).\<close>

fun truthy :: "pyval \<Rightarrow> bool" where
  "truthy PNone = False"
| "truthy (PBool b) = b"
| "truthy (PInt n) = (n \<noteq> 0)"
| "truthy (PStr s) = (s \<noteq> [])"
| "truthy (PList xs) = (xs \<noteq> [])"
| "truthy (PDict kvs) = (kvs \<noteq> [])"

definition py_or :: "pyval \<Rightarrow> pyval \<Rightarrow> pyval" where
  "py_or x y = (if truthy x then x else y)"

text \<open>
  Equality of hashable scalars as \<open>dict\<close> and \<open>set\<close> use it: \<open>True == 1\<close> and
  \<open>False == 0\<close>; values of different kinds are otherwise different.
\<close>

fun key_eq :: "pyval \<Rightarrow> pyval \<Rightarrow> bool" where
  "key_eq (PBool a) (PInt b) = ((if a then 1 else 0) = b)"
| "key_eq (PInt a) (PBool b) = (a = (if b then 1 else 0))"
| "key_eq a b = (a = b)"

fun dict_lookup :: "(pyval \<times> pyval) list \<Rightarrow> pyval \<Rightarrow> pyval option" where
  "dict_lookup [] k = None"
| "dict_lookup ((k', v) # kvs) k = (if key_eq k' k then Some v else dict_lookup kvs k)"

text \<open>\<open>x.get(k, default)\<close>: only a mapping has the method.\<close>

fun py_get :: "pyval \<Rightarrow> pyval \<Rightarrow> pyval \<Rightarrow> py_error + pyval" where
  "py_get (PDict kvs) k dflt = Inr (case dict_lookup kvs k of None \<Rightarrow> dflt | Some v \<Rightarrow> v)"
| "py_get _ k dflt = Inl AttributeError"

text \<open>
  Iteration (\<open>for a in x\<close>): a sequence yields its elements, text its characters as
  one-character texts, a mapping its keys; null, booleans and integers are not iterable.
\<close>

fun py_iter :: "pyval \<Rightarrow> py_error + pyval list" where
  "py_iter (PList xs) = Inr xs"
| "py_iter (PStr s) = Inr (map (\<lambda>c. PStr [c]) s)"
| "py_iter (PDict kvs) = Inr (map fst kvs)"
| "py_iter _ = Inl TypeError"

text \<open>Subscription \<open>x[i]\<close> with a literal index \<open>i \<ge> 0\<close>.\<close>

fun py_subscript :: "pyval \<Rightarrow> nat \<Rightarrow> py_error + pyval" where
  "py_subscript (PList xs) i = (if i < length xs then Inr (xs ! i) else Inl IndexError)"
| "py_subscript (PStr s) i = (if i < length s then Inr (PStr [s ! i]) else Inl IndexError)"
| "py_subscript (PDict kvs) i =
     (case dict_lookup kvs (PInt (int i)) of None \<Rightarrow> Inl KeyError | Some v \<Rightarrow> Inr v)"
| "py_subscript _ i = Inl TypeError"

text \<open>\<open>sep.join(parts)\<close>.\<close>

fun join :: "pystr \<Rightarrow> pystr list \<Rightarrow> pystr" where
  "join sep [] = []"
| "join sep [x] = x"
| "join sep (x # y # ys) = x @ sep @ join sep (y # ys)"

text \<open>
  A generator expression \<open>f(x) for x in xs\<close> consumed by \<open>join\<close>: the calls happen in
  order and the first exception ends the whole expression.
\<close>

fun map_err :: "('a \<Rightarrow> 'e + 'b) \<Rightarrow> 'a list \<Rightarrow> 'e + 'b list" where
  "map_err f [] = Inr []"
| "map_err f (x # xs) =
     (case f x of
        Inl e \<Rightarrow> Inl e
      | Inr y \<Rightarrow> (case map_err f xs of Inl e \<Rightarrow> Inl e | Inr ys \<Rightarrow> Inr (y # ys)))"

text \<open>
  \<open>s.replace(old, new)\<close>: the occurrences of \<open>old\<close> are found from left to right and do
  not overlap; an empty \<open>old\<close> matches before every character and at the end.
\<close>

function replace :: "pystr \<Rightarrow> pystr \<Rightarrow> pystr \<Rightarrow> pystr" where
  "replace old new [] = (if old = [] then new else [])"
| "replace old new (c # cs) =
     (if old = [] then new @ c # replace old new cs
      else if prefix old (c # cs) then new @ replace old new (drop (length old) (c # cs))
      else c # replace old new cs)"
  by pat_completeness auto
termination
  by (relation "measure (\<lambda>(old, new, s). length s)") auto

text \<open>Decimal text of an integer (\<open>str(n)\<close>).\<close>

function digits :: "nat \<Rightarrow> pystr" where
  "digits n = (if n < 10 then [48 + n] else digits (n div 10) @ [48 + n mod 10])"
  by pat_completeness auto
termination
  by (relation "measure id") auto

definition str_int :: "int \<Rightarrow> pystr" where
  "str_int i = (if i < 0 then 45 # digits (nat (- i)) else digits (nat i))"

text \<open>\<open>repr\<close> and \<open>str\<close>; they differ on text only.\<close>

fun py_repr :: "py_builtins \<Rightarrow> pyval \<Rightarrow> pystr" where
  "py_repr env PNone = ascii ''None''"
| "py_repr env (PBool b) = (if b then ascii ''True'' else ascii ''False'')"
| "py_repr env (PInt i) = str_int i"
| "py_repr env (PStr s) = repr_text env s"
| "py_repr env (PList xs) =
     ascii ''['' @ join (ascii '', '') (map (py_repr env) xs) @ ascii '']''"
| "py_repr env (PDict kvs) =
     ascii ''{'' @
     join (ascii '', '')
       (map (\<lambda>kv. py_repr env (fst kv) @ ascii '': '' @ py_repr env (snd kv)) kvs) @
     ascii ''}''"

fun py_str :: "py_builtins \<Rightarrow> pyval \<Rightarrow> pystr" where
  "py_str env (PStr s) = s"
| "py_str env v = py_repr env v"

text \<open>
  \<open>html.escape(s)\<close> of the standard library, with its default \<open>quote=True\<close>: five
  replacements in a row, the ampersand first.
\<close>

definition html_escape :: "pystr \<Rightarrow> pystr" where
  "html_escape s =
     replace (ascii [CHR 0x27]) (ascii ''&#x27;'')
       (replace (ascii [CHR 0x22]) (ascii ''&quot;'')
          (replace (ascii ''>'') (ascii ''&gt;'')
             (replace (ascii ''<'') (ascii ''&lt;'')
                (replace (ascii ''&'') (ascii ''&amp;'') s))))"

section \<open>The Escaper\<close>

text \<open>\<open>_escape(s)\<close>, lines 22-23: \<open>html.escape("" if s is None else str(s))\<close>.\<close>

definition escape :: "py_builtins \<Rightarrow> pyval \<Rightarrow> pystr" where
  "escape env s = html_escape (if s = PNone then [] else py_str env s)"

section \<open>Attendee, lecture and slot renderers\<close>

text \<open>\<open>render_attendees\<close>, lines 26-33.\<close>

definition render_attendees :: "py_builtins \<Rightarrow> pyval \<Rightarrow> py_error + pystr" where
  \<open>render_attendees env attendees =
     (if \<not> truthy attendees then Inr em_dash
      else case py_iter attendees of
        Inl e \<Rightarrow> Inl e
      | Inr as \<Rightarrow>
          Inr (join (ascii '' '')
                 (map (\<lambda>a. ascii ''<span class="att-pill">'' @ escape env a @ ascii ''</span>'')
                    as)))\<close>

text \<open>\<open>render_lecture\<close>, lines 36-45.\<close>

definition render_lecture :: "py_builtins \<Rightarrow> pyval \<Rightarrow> py_error + pystr" where
  \<open>render_lecture env lec =
     (case py_get lec (PStr (ascii ''lecture'')) (PStr []) of
        Inl e \<Rightarrow> Inl e
      | Inr t \<Rightarrow>
          (let title = escape env t in
           case py_get lec (PStr (ascii ''attendees'')) (PList []) of
             Inl e \<Rightarrow> Inl e
           | Inr as \<Rightarrow>
               (case render_attendees env as of
                  Inl e \<Rightarrow> Inl e
                | Inr attendees_html \<Rightarrow>
                    Inr (ascii ''<div class="lecture">'' @
                         ascii ''  <div class="title">'' @ title @ ascii ''</div>'' @
                         ascii ''  <div class="attendees">'' @ attendees_html @ ascii ''</div>'' @
                         ascii ''</div>''))))\<close>

text \<open>
  Lines 51-55 of \<open>render_slot\<close>: the start and end of the slot, from the value of
  \<open>time\<close>. \<open>yaml.safe_load\<close> builds no tuples, so \<open>isinstance(time, (list, tuple))\<close>
  holds for sequences only.
\<close>

fun is_list :: "pyval \<Rightarrow> bool" where
  "is_list (PList xs) = True"
| "is_list _ = False"

fun py_len :: "pyval \<Rightarrow> nat" where
  "py_len (PList xs) = length xs"
| "py_len _ = 0"

definition start_end :: "pyval \<Rightarrow> py_error + pyval \<times> pyval" where
  "start_end time =
     (if \<not> is_list time \<or> py_len time < 2 then
        (if truthy time then
           (case py_subscript time 0 of Inl e \<Rightarrow> Inl e | Inr start \<Rightarrow> Inr (start, PStr []))
         else Inr (PStr [], PStr []))
      else
        (case py_subscript time 0 of
           Inl e \<Rightarrow> Inl e
         | Inr start \<Rightarrow>
             (case py_subscript time 1 of Inl e \<Rightarrow> Inl e | Inr end \<Rightarrow> Inr (start, end))))"

text \<open>Line 56 of \<open>render_slot\<close>: the text of the time column.\<close>

definition time_str :: "py_builtins \<Rightarrow> pyval \<Rightarrow> pyval \<Rightarrow> pystr" where
  "time_str env start end =
     (if truthy (py_or start end)
      then escape env start @ ascii '' '' @ em_dash @ ascii '' '' @ escape env end
      else em_dash)"

text \<open>Lines 57-58 of \<open>render_slot\<close>: the lectures of the slot, rendered and joined.\<close>

definition slot_lectures :: "py_builtins \<Rightarrow> pyval \<Rightarrow> py_error + pystr" where
  "slot_lectures env slot =
     (case py_get slot (PStr (ascii ''lectures'')) (PList []) of
        Inl e \<Rightarrow> Inl e
      | Inr ls \<Rightarrow>
          (case py_iter (py_or ls (PList [])) of
             Inl e \<Rightarrow> Inl e
           | Inr lectures \<Rightarrow>
               (case map_err (render_lecture env) lectures of
                  Inl e \<Rightarrow> Inl e
                | Inr lecture_htmls \<Rightarrow> Inr (join [10] lecture_htmls))))"

text \<open>Lines 59-64 of \<open>render_slot\<close>: the markup around the two columns.\<close>

definition slot_html :: "pystr \<Rightarrow> pystr \<Rightarrow> pystr" where
  \<open>slot_html time_text lectures_html =
     ascii ''<div class="slot">'' @
     ascii ''  <div class="time">'' @ time_text @ ascii ''</div>'' @
     ascii ''  <div class="lectures">'' @ lectures_html @ ascii ''</div>'' @
     ascii ''</div>''\<close>

text \<open>\<open>render_slot\<close>, lines 48-64.\<close>

definition render_slot :: "py_builtins \<Rightarrow> pyval \<Rightarrow> py_error + pystr" where
  "render_slot env slot =
     (case py_get slot (PStr (ascii ''time'')) (PList []) of
        Inl e \<Rightarrow> Inl e
      | Inr time \<Rightarrow>
          (case start_end time of
             Inl e \<Rightarrow> Inl e
           | Inr (start, end) \<Rightarrow>
               (case slot_lectures env slot of
                  Inl e \<Rightarrow> Inl e
                | Inr lectures_html \<Rightarrow>
                    Inr (slot_html (time_str env start end) lectures_html))))"

section \<open>The Day Normalizer\<close>

text \<open>Line 74 of \<open>generate_html\<close>: the conventional weekday order.\<close>

definition day_order :: "pyval list" where
  "day_order = map (\<lambda>d. PStr (ascii d))
     [''monday'', ''tuesday'', ''wednesday'', ''thursday'', ''friday'', ''saturday'', ''sunday'']"

text \<open>
  \<open>d in week\<close> and \<open>d not in seen\<close>: membership among the keys of a mapping and among
  the elements of a set, both by \<open>key_eq\<close>.
\<close>

definition py_in :: "pyval \<Rightarrow> pyval list \<Rightarrow> bool" where
  "py_in d ks = list_ex (\<lambda>k. key_eq k d) ks"

text \<open>
  The two loops of lines 75-85 over the state \<open>(present, seen)\<close>. The first runs over
  \<open>day_order\<close>, the second over \<open>week.keys()\<close>.
\<close>

fun canonical_loop ::
  "pyval list \<Rightarrow> pyval list \<Rightarrow> pyval list \<times> pyval list \<Rightarrow> pyval list \<times> pyval list" where
  "canonical_loop keys [] (present, seen) = (present, seen)"
| "canonical_loop keys (d # ds) (present, seen) =
     (if py_in d keys then canonical_loop keys ds (present @ [d], d # seen)
      else canonical_loop keys ds (present, seen))"

fun remaining_loop ::
  "pyval list \<Rightarrow> pyval list \<times> pyval list \<Rightarrow> pyval list \<times> pyval list" where
  "remaining_loop [] (present, seen) = (present, seen)"
| "remaining_loop (d # ds) (present, seen) =
     (if \<not> py_in d seen then remaining_loop ds (present @ [d], d # seen)
      else remaining_loop ds (present, seen))"

definition order_days :: "(pyval \<times> pyval) list \<Rightarrow> pyval list" where
  "order_days week =
     fst (remaining_loop (map fst week) (canonical_loop (map fst week) day_order ([], [])))"

section \<open>Day sections\<close>

text \<open>
  \<open>str.capitalize()\<close>: the first character in upper case and the rest in lower case.
  On ASCII text the case mapping is the one of the letters a-z; text with other
  characters goes through the Unicode tables.
\<close>

definition ascii_upper :: "nat \<Rightarrow> nat" where
  "ascii_upper c = (if 97 \<le> c \<and> c \<le> 122 then c - 32 else c)"

definition ascii_lower :: "nat \<Rightarrow> nat" where
  "ascii_lower c = (if 65 \<le> c \<and> c \<le> 90 then c + 32 else c)"

definition capitalize :: "py_builtins \<Rightarrow> pystr \<Rightarrow> pystr" where
  "capitalize env s =
     (if list_all (\<lambda>c. c < 128) s then
        (case s of [] \<Rightarrow> [] | c # cs \<Rightarrow> ascii_upper c # map ascii_lower cs)
      else capitalize_unicode env s)"

text \<open>\<open>day.capitalize()\<close> on a key of the mapping: only text has the method.\<close>

fun py_capitalize :: "py_builtins \<Rightarrow> pyval \<Rightarrow> py_error + pystr" where
  "py_capitalize env (PStr s) = Inr (capitalize env s)"
| "py_capitalize env _ = Inl AttributeError"

text \<open>Lines 94-99: the section of one day, from its escaped name and its slots.\<close>

definition day_section :: "pystr \<Rightarrow> pystr \<Rightarrow> pystr" where
  \<open>day_section day_name slots_html =
     ascii ''<section class="day-section">'' @
     ascii ''  <header class="day-header"><div class="day-name">'' @ day_name @
     ascii ''</div></header>'' @
     ascii ''  <div class="day-row">'' @ slots_html @ ascii ''</div>'' @
     ascii ''</section>''\<close>

text \<open>Line 89: \<open>week.get(day, []) or []\<close>.\<close>

definition day_slots :: "(pyval \<times> pyval) list \<Rightarrow> pyval \<Rightarrow> pyval" where
  "day_slots week day =
     py_or (case dict_lookup week day of None \<Rightarrow> PList [] | Some v \<Rightarrow> v) (PList [])"

text \<open>
  Lines 92-99: the section of a day that has slots. The slots are rendered before the
  name of the day is capitalized.
\<close>

definition render_day :: "py_builtins \<Rightarrow> pyval \<Rightarrow> pyval \<Rightarrow> py_error + pystr" where
  "render_day env day slots =
     (case py_iter slots of
        Inl e \<Rightarrow> Inl e
      | Inr ss \<Rightarrow>
          (case map_err (render_slot env) ss of
             Inl e \<Rightarrow> Inl e
           | Inr slot_htmls \<Rightarrow>
               (case py_capitalize env day of
                  Inl e \<Rightarrow> Inl e
                | Inr cap \<Rightarrow>
                    Inr (day_section (escape env (PStr cap)) (join [10] slot_htmls)))))"

text \<open>The loop of lines 87-99 over \<open>present\<close>, returning \<open>days_html_parts\<close>.\<close>

fun days_html_parts ::
  "py_builtins \<Rightarrow> (pyval \<times> pyval) list \<Rightarrow> pyval list \<Rightarrow> py_error + pystr list" where
  "days_html_parts env week [] = Inr []"
| "days_html_parts env week (day # rest) =
     (let slots = day_slots week day
      in if \<not> truthy slots then days_html_parts env week rest
         else
           (case render_day env day slots of
              Inl e \<Rightarrow> Inl e
            | Inr sec \<Rightarrow>
                (case days_html_parts env week rest of
                   Inl e \<Rightarrow> Inl e
                 | Inr parts \<Rightarrow> Inr (sec # parts))))"

section \<open>The Page Assembler\<close>

text \<open>The page skeleton of lines 103-187, with the three placeholder tokens.\<close>

definition template :: pystr where
  \<open>template =
     ascii ''<!doctype html>
<html lang="en">
<head>
<meta charset="utf-8">
<title>__NAME__ (__SEM__)</title>
<meta name="viewport" content="width=device-width,initial-scale=1">
<style>
:root{
  --bg: #0b1220;
  --panel: #0f1724;
  --muted: #d7e0ea;
  --accent: #5fb8ff;
  --gap:12px;
  font-family: system-ui, -apple-system, "Segoe UI", Roboto, "Helvetica Neue", Arial;
  color-scheme: dark;
}
html,body{height:100%;margin:0}
body{
  margin:28px;
  background-color:var(--bg);
  color:var(--muted);
  -webkit-font-smoothing:antialiased;
  -moz-osx-font-smoothing:grayscale;
}
header{display:flex;align-items:baseline;gap:12px;margin-bottom:14px}
h1{margin:0;font-size:1.25rem}
.meta{color:rgba(215,224,234,0.9);font-size:0.95rem}
main{max-width:1100px;margin:0 auto;display:flex;flex-direction:column;gap:14px}
.day-section{
  background:var(--panel);
  border:1px solid rgba(255,255,255,0.03);
  border-radius:10px;padding:12px;
}
.day-header{display:flex;align-items:center;margin-bottom:10px}
.day-name{font-weight:700;color:var(--accent);font-size:1rem;text-transform:capitalize}
.day-row{display:flex;gap:var(--gap);flex-wrap:wrap}
.slot{min-width:220px;flex:1 1 240px;display:flex;gap:12px;align-items:flex-start;padding:12px;border-radius:10px;
  background:rgba(255,255,255,0.02);border:1px solid rgba(255,255,255,0.02)}
.time{width:96px;font-weight:700;color:var(--muted);flex-shrink:0}
.lectures{flex:1;display:flex;flex-direction:column;gap:8px}
.lecture{padding:10px;border-radius:8px;background:rgba(255,255,255,0.015);border:1px solid rgba(255,255,255,0.01)}
.title{font-weight:700;color:#fff}
.attendees{font-size:0.85rem;color:rgba(215,224,234,0.9);margin-top:8px;display:flex;gap:8px;flex-wrap:wrap}
.att-pill{padding:6px 10px;border-radius:999px;background:rgba(95,184,255,0.08);border:1px solid rgba(95,184,255,0.12);font-size:0.85rem;color:var(--muted)}
footer{margin-top:16px;color:rgba(215,224,234,0.6);font-size:0.9rem;text-align:center}
/* subtle, low-cost fade-in using opacity only (no transforms) */
.slot, .lecture, .att-pill{opacity:0}
.visible{opacity:1;transition:opacity 260ms linear}
@media (max-width:900px){ .slot{flex-basis:45%} }
@media (max-width:600px){ body{margin:14px} .slot{flex-basis:100%} .time{width:76px} }
</style>
</head>
<body>
<header>
  <h1>__NAME__</h1>
  <div class="meta">Semester: __SEM__</div>
</header>
<main>
__DAYS_HTML__
</main>
<footer>
  '' @
     [10257, 10269, 10265] @
     ascii ''
</footer>
<script>
(function(){
  var rows = document.querySelectorAll('.day-row');
  rows.forEach(function(row){
    var slots = Array.prototype.slice.call(row.querySelectorAll('.slot'));
    slots.forEach(function(slot, i){
      setTimeout(function(){ slot.classList.add('visible'); }, i * 40);
      var lecs = slot.querySelectorAll('.lecture');
      lecs.forEach(function(l, j){
        setTimeout(function(){ l.classList.add('visible'); }, i*40 + 80 + j*30);
      });
      var pills = slot.querySelectorAll('.att-pill');
      pills.forEach(function(p, k){
        setTimeout(function(){ p.classList.add('visible'); }, i*40 + 140 + k*20);
      });
    });
  });
})();
</script>
</body>
</html>
''\<close>

text \<open>Line 189: three replacements in a row.\<close>

definition assemble :: "pystr \<Rightarrow> pystr \<Rightarrow> pystr \<Rightarrow> pystr" where
  "assemble name semester days_html =
     replace (ascii ''__DAYS_HTML__'') days_html
       (replace (ascii ''__SEM__'') semester
          (replace (ascii ''__NAME__'') name template))"

text \<open>
  \<open>generate_html\<close>, lines 67-189. A \<open>week\<close> that is true but no mapping fails: an
  integer or boolean at \<open>d in week\<close> (TypeError), a sequence or text at
  \<open>week.keys()\<close> (AttributeError).
\<close>

definition generate_html :: "py_builtins \<Rightarrow> pyval \<Rightarrow> py_error + pystr" where
  "generate_html env doc =
     (case py_get doc (PStr (ascii ''name'')) (PStr (ascii ''Schedule'')) of
        Inl e \<Rightarrow> Inl e
      | Inr n \<Rightarrow>
          (let name = escape env n in
           case py_get doc (PStr (ascii ''semester'')) (PStr []) of
             Inl e \<Rightarrow> Inl e
           | Inr s \<Rightarrow>
               (let semester = escape env s in
                case py_get doc (PStr (ascii ''week'')) (PDict []) of
                  Inl e \<Rightarrow> Inl e
                | Inr w \<Rightarrow>
                    (case py_or w (PDict []) of
                       PDict week \<Rightarrow>
                         (case days_html_parts env week (order_days week) of
                            Inl e \<Rightarrow> Inl e
                          | Inr parts \<Rightarrow> Inr (assemble name semester (join [10] parts)))
                     | PList _ \<Rightarrow> Inl AttributeError
                     | PStr _ \<Rightarrow> Inl AttributeError
                     | _ \<Rightarrow> Inl TypeError))))"

text \<open>
  The skeleton cut at its placeholder tokens: the six pieces of text around the five
  occurrences.
\<close>

definition seg0 :: pystr where
  \<open>seg0 =
     ascii ''<!doctype html>
<html lang="en">
<head>
<meta charset="utf-8">
<title>''\<close>

definition seg1 :: pystr where
  \<open>seg1 =
     ascii '' (''\<close>

definition seg2 :: pystr where
  \<open>seg2 =
     ascii '')</title>
<meta name="viewport" content="width=device-width,initial-scale=1">
<style>
:root{
  --bg: #0b1220;
  --panel: #0f1724;
  --muted: #d7e0ea;
  --accent: #5fb8ff;
  --gap:12px;
  font-family: system-ui, -apple-system, "Segoe UI", Roboto, "Helvetica Neue", Arial;
  color-scheme: dark;
}
html,body{height:100%;margin:0}
body{
  margin:28px;
  background-color:var(--bg);
  color:var(--muted);
  -webkit-font-smoothing:antialiased;
  -moz-osx-font-smoothing:grayscale;
}
header{display:flex;align-items:baseline;gap:12px;margin-bottom:14px}
h1{margin:0;font-size:1.25rem}
.meta{color:rgba(215,224,234,0.9);font-size:0.95rem}
main{max-width:1100px;margin:0 auto;display:flex;flex-direction:column;gap:14px}
.day-section{
  background:var(--panel);
  border:1px solid rgba(255,255,255,0.03);
  border-radius:10px;padding:12px;
}
.day-header{display:flex;align-items:center;margin-bottom:10px}
.day-name{font-weight:700;color:var(--accent);font-size:1rem;text-transform:capitalize}
.day-row{display:flex;gap:var(--gap);flex-wrap:wrap}
.slot{min-width:220px;flex:1 1 240px;display:flex;gap:12px;align-items:flex-start;padding:12px;border-radius:10px;
  background:rgba(255,255,255,0.02);border:1px solid rgba(255,255,255,0.02)}
.time{width:96px;font-weight:700;color:var(--muted);flex-shrink:0}
.lectures{flex:1;display:flex;flex-direction:column;gap:8px}
.lecture{padding:10px;border-radius:8px;background:rgba(255,255,255,0.015);border:1px solid rgba(255,255,255,0.01)}
.title{font-weight:700;color:#fff}
.attendees{font-size:0.85rem;color:rgba(215,224,234,0.9);margin-top:8px;display:flex;gap:8px;flex-wrap:wrap}
.att-pill{padding:6px 10px;border-radius:999px;background:rgba(95,184,255,0.08);border:1px solid rgba(95,184,255,0.12);font-size:0.85rem;color:var(--muted)}
footer{margin-top:16px;color:rgba(215,224,234,0.6);font-size:0.9rem;text-align:center}
/* subtle, low-cost fade-in using opacity only (no transforms) */
.slot, .lecture, .att-pill{opacity:0}
.visible{opacity:1;transition:opacity 260ms linear}
@media (max-width:900px){ .slot{flex-basis:45%} }
@media (max-width:600px){ body{margin:14px} .slot{flex-basis:100%} .time{width:76px} }
</style>
</head>
<body>
<header>
  <h1>''\<close>

definition seg3 :: pystr where
  \<open>seg3 =
     ascii ''</h1>
  <div class="meta">Semester: ''\<close>

definition seg4 :: pystr where
  \<open>seg4 =
     ascii ''</div>
</header>
<main>
''\<close>

definition seg5 :: pystr where
  \<open>seg5 =
     ascii ''
</main>
<footer>
  '' @
     [10257, 10269, 10265] @
     ascii ''
</footer>
<script>
(function(){
  var rows = document.querySelectorAll('.day-row');
  rows.forEach(function(row){
    var slots = Array.prototype.slice.call(row.querySelectorAll('.slot'));
    slots.forEach(function(slot, i){
      setTimeout(function(){ slot.classList.add('visible'); }, i * 40);
      var lecs = slot.querySelectorAll('.lecture');
      lecs.forEach(function(l, j){
        setTimeout(function(){ l.classList.add('visible'); }, i*40 + 80 + j*30);
      });
      var pills = slot.querySelectorAll('.att-pill');
      pills.forEach(function(p, k){
        setTimeout(function(){ p.classList.add('visible'); }, i*40 + 140 + k*20);
      });
    });
  });
})();
</script>
</body>
</html>
''\<close>

section \<open>The entry point\<close>

text \<open>
  The file system is a map from paths to the text of the files (the UTF-8 encoding and
  decoding of the two file operations is left out), next to the lines printed so far.
  Directories, permissions and failing writes are not modelled.
\<close>

record world =
  files :: "pystr \<rightharpoonup> pystr"
  stdout :: "pystr list"

definition IN_FILE :: pystr where
  "IN_FILE = ascii ''terrible.yaml''"

definition OUT_FILE :: pystr where
  "OUT_FILE = ascii ''index.html''"

text \<open>
  How a run ends: normally, by \<open>SystemExit\<close> with a message, or by an exception nobody
  catches (one of the renderers', or the parser's).
\<close>

datatype outcome = Done | SystemExit pystr | Uncaught py_error | ParserError

fun exit_status :: "outcome \<Rightarrow> nat" where
  "exit_status Done = 0"
| "exit_status _ = 1"

text \<open>
  \<open>main\<close>, lines 192-197, with \<open>load_yaml\<close> (lines 16-19) inlined. The parser
  \<open>yaml.safe_load\<close> (\<open>None\<close> when it raises) and \<open>Path.resolve\<close> are parameters.
\<close>

definition main ::
  "py_builtins \<Rightarrow> (pystr \<Rightarrow> pyval option) \<Rightarrow> (pystr \<Rightarrow> pystr) \<Rightarrow> world \<Rightarrow> world \<times> outcome" where
  "main env safe_load resolve w =
     (case files w IN_FILE of
        None \<Rightarrow> (w, SystemExit (ascii ''Input file not found: '' @ IN_FILE))
      | Some text \<Rightarrow>
          (case safe_load text of
             None \<Rightarrow> (w, ParserError)
           | Some v \<Rightarrow>
               (let doc = py_or v (PDict []) in
                case generate_html env doc of
                  Inl e \<Rightarrow> (w, Uncaught e)
                | Inr page \<Rightarrow>
                    (w\<lparr>files := (files w)(OUT_FILE \<mapsto> page),
                       stdout := stdout w @ [ascii ''Wrote '' @ resolve OUT_FILE]\<rparr>,
                     Done))))"

section \<open>Notions used in the statements\<close>

text \<open>
  A stand-in for the two Unicode-dependent built-ins, for evaluating the program at
  inputs that never reach them (ASCII keys, no container where text is expected).
\<close>

definition plain_builtins :: py_builtins where
  "plain_builtins = \<lparr>repr_text = (\<lambda>s. s), capitalize_unicode = (\<lambda>s. s)\<rparr>"

text \<open>What \<open>html.escape\<close> does to one character.\<close>

definition escape_char :: "nat \<Rightarrow> pystr" where
  "escape_char c =
     (if c = 38 then ascii ''&amp;''
      else if c = 60 then ascii ''&lt;''
      else if c = 62 then ascii ''&gt;''
      else if c = 34 then ascii ''&quot;''
      else if c = 39 then ascii ''&#x27;''
      else [c])"

text \<open>
  A text has no raw occurrence of an HTML-significant character when \<open><\<close>, \<open>>\<close> and the
  two quotes do not occur in it and every ampersand starts one of the five character
  references that \<open>html.escape\<close> writes.
\<close>

definition entities :: "pystr list" where
  "entities = map ascii [''amp;'', ''lt;'', ''gt;'', ''quot;'', ''#x27;'']"

fun no_raw :: "pystr \<Rightarrow> bool" where
  "no_raw [] = True"
| "no_raw (c # cs) =
     (c \<notin> {60, 62, 34, 39} \<and> (c = 38 \<longrightarrow> list_ex (\<lambda>e. prefix e cs) entities) \<and> no_raw cs)"

text \<open>
  The rule for the time column in the words of the specification: start and end are the
  escaped first and second element of \<open>time\<close>, as far as present, and the column shows
  the em-dash iff both are empty.
\<close>

fun display_start_end :: "py_builtins \<Rightarrow> pyval list \<Rightarrow> pystr \<times> pystr" where
  "display_start_end env [] = ([], [])"
| "display_start_end env [a] = (escape env a, [])"
| "display_start_end env (a # b # rest) = (escape env a, escape env b)"

definition time_column :: "pystr \<times> pystr \<Rightarrow> pystr" where
  "time_column se =
     (if fst se = [] \<and> snd se = [] then em_dash
      else fst se @ ascii '' '' @ em_dash @ ascii '' '' @ snd se)"

definition text_or_null :: "pyval \<Rightarrow> bool" where
  "text_or_null v = (case v of PNone \<Rightarrow> True | PStr s \<Rightarrow> True | _ \<Rightarrow> False)"

text \<open>The keys of a real mapping are pairwise different as \<open>dict\<close> compares them.\<close>

fun keys_distinct :: "pyval list \<Rightarrow> bool" where
  "keys_distinct [] = True"
| "keys_distinct (k # ks) = (\<not> py_in k ks \<and> keys_distinct ks)"

text \<open>
  The page in the words of the specification: the skeleton with exactly the intended
  substitutions, the name at the two places of \<open>__NAME__\<close>, the semester at the two
  places of \<open>__SEM__\<close> and the day sections at the place of \<open>__DAYS_HTML__\<close>.
\<close>

definition page :: "pystr \<Rightarrow> pystr \<Rightarrow> pystr \<Rightarrow> pystr" where
  "page name semester days_html =
     seg0 @ name @ seg1 @ semester @ seg2 @ name @ seg3 @ semester @ seg4 @ days_html @ seg5"


section \<open>Properties of the Escaper\<close>

lemma replace_single:
  "replace [a] new s = concat (map (\<lambda>c. if c = a then new else [c]) s)"
  by (induction s) auto

lemma html_escape_concat: "html_escape s = concat (map escape_char s)"
  by (induction s) (simp_all add: html_escape_def replace_single ascii_def escape_char_def)

lemma html_escape_Nil [simp]: "html_escape [] = []"
  by (simp add: html_escape_concat)

lemma html_escape_Cons: "html_escape (c # cs) = escape_char c @ html_escape cs"
  by (simp add: html_escape_concat)

lemma escape_char_not_Nil: "escape_char c \<noteq> []"
  by (simp add: escape_char_def ascii_def)

lemma html_escape_eq_Nil [simp]: "html_escape s = [] \<longleftrightarrow> s = []"
  by (cases s) (simp_all add: html_escape_Cons escape_char_not_Nil)

lemma no_raw_escape_char: "no_raw rest \<Longrightarrow> no_raw (escape_char c @ rest)"
  by (simp add: escape_char_def ascii_def entities_def)

lemma no_raw_html_escape: "no_raw (html_escape s)"
  by (induction s) (simp_all add: html_escape_Cons no_raw_escape_char)

lemma html_escape_unchanged:
  "set s \<inter> {38, 60, 62, 34, 39} = {} \<Longrightarrow> html_escape s = s"
  by (induction s) (auto simp: html_escape_Cons escape_char_def)

text \<open>
  Claim C7. \<open>_escape\<close> maps \<open>None\<close> to the empty text and returns a text for every value
  (it has no failing branch). Whatever the input, the result has no raw occurrence of
  \<open>&\<close>, \<open><\<close>, \<open>>\<close>, \<open>"\<close> or \<open>'\<close>: the last four do not occur and every \<open>&\<close> starts a
  character reference. A text with none of the five characters is returned unchanged.
\<close>

theorem escape_total_and_safe:
  "escape env PNone = [] \<and>
   no_raw (escape env v) \<and>
   (set s \<inter> {38, 60, 62, 34, 39} = {} \<longrightarrow> escape env (PStr s) = s)"
  by (simp add: escape_def no_raw_html_escape html_escape_unchanged)

theorem escape_total_and_safe_witness:
  "escape plain_builtins PNone = [] \<and>
   escape plain_builtins (PStr (ascii ''a<b&c'')) = ascii ''a&lt;b&amp;c'' \<and>
   no_raw (ascii ''a&lt;b&amp;c'') \<and>
   set (ascii ''09:00'') \<inter> {38, 60, 62, 34, 39} = {} \<and>
   escape plain_builtins (PStr (ascii ''09:00'')) = ascii ''09:00''"
proof -
  have e: "escape plain_builtins (PStr (ascii ''a<b&c'')) = ascii ''a&lt;b&amp;c''"
    by (simp add: escape_def html_escape_Cons escape_char_def ascii_def)
  have s: "set (ascii ''09:00'') \<inter> {38, 60, 62, 34, 39} = {}"
    by (simp add: ascii_def)
  from escape_total_and_safe [of plain_builtins "PStr (ascii ''a<b&c'')" "ascii ''09:00''"] e s
  show ?thesis by simp
qed

section \<open>Properties of \<open>render_slot\<close>\<close>

lemma escape_empty_text [simp]: "escape env (PStr []) = []"
  by (simp add: escape_def)

lemma time_str_text:
  "text_or_null a \<Longrightarrow> text_or_null b \<Longrightarrow>
   time_str env a b = time_column (escape env a, escape env b)"
  by (cases a; cases b)
    (simp_all add: time_str_def time_column_def py_or_def text_or_null_def escape_def)

text \<open>
  Claim C9. \<open>render_slot\<close> is not total over scalar values of \<open>time\<close>: when \<open>time\<close> is a
  non-zero integer such as 930, taking its first element fails with a TypeError and so
  does \<open>render_slot\<close>; there is no fall-back to an empty start and end.
\<close>

theorem render_slot_int_time:
  "n \<noteq> 0 \<Longrightarrow> dict_lookup kvs (PStr (ascii ''time'')) = Some (PInt n) \<Longrightarrow>
   start_end (PInt n) = Inl TypeError \<and> render_slot env (PDict kvs) = Inl TypeError"
  by (simp add: render_slot_def start_end_def)

theorem render_slot_int_time_witness:
  "(930::int) \<noteq> 0 \<and>
   dict_lookup [(PStr (ascii ''time''), PInt 930)] (PStr (ascii ''time'')) = Some (PInt 930) \<and>
   start_end (PInt 930) = Inl TypeError \<and>
   render_slot plain_builtins (PDict [(PStr (ascii ''time''), PInt 930)]) = Inl TypeError"
  using render_slot_int_time [of 930 "[(PStr (ascii ''time''), PInt 930)]" plain_builtins]
  by simp

text \<open>
  Claim C10. When \<open>time\<close> is a non-empty text instead of a sequence, the start is the
  first character of the text and the end is empty: the time column shows the escaped
  first character, the separator and nothing else. For \<open>time: "09:00"\<close> the start is
  \<open>0\<close>.
\<close>

theorem render_slot_text_time:
  "dict_lookup kvs (PStr (ascii ''time'')) = Some (PStr (c # cs)) \<Longrightarrow>
   start_end (PStr (c # cs)) = Inr (PStr [c], PStr []) \<and>
   render_slot env (PDict kvs) =
     (case slot_lectures env (PDict kvs) of
        Inl e \<Rightarrow> Inl e
      | Inr lectures_html \<Rightarrow>
          Inr (slot_html (html_escape [c] @ ascii '' '' @ em_dash @ ascii '' '') lectures_html))"
  by (simp add: render_slot_def start_end_def time_str_def py_or_def escape_def
      split: sum.splits)

theorem render_slot_text_time_witness:
  "dict_lookup [(PStr (ascii ''time''), PStr (ascii ''09:00''))] (PStr (ascii ''time'')) =
     Some (PStr (48 # ascii ''9:00'')) \<and>
   start_end (PStr (ascii ''09:00'')) = Inr (PStr (ascii ''0''), PStr []) \<and>
   render_slot plain_builtins (PDict [(PStr (ascii ''time''), PStr (ascii ''09:00''))]) =
     Inr (slot_html (ascii ''0 '' @ em_dash @ ascii '' '') [])"
  using render_slot_text_time
    [of "[(PStr (ascii ''time''), PStr (ascii ''09:00''))]" 48 "ascii ''9:00''" plain_builtins]
  by (simp add: ascii_def slot_lectures_def py_or_def html_escape_Cons escape_char_def)

text \<open>
  Claim C2, as the code has it. For a slot whose \<open>time\<close> is missing, null or a sequence
  whose first two elements are text or null: start and end are the escaped first and
  second element as far as present (end is empty with fewer than two elements), and the
  time column shows the em-dash iff both are empty, otherwise start, space, em-dash,
  space, end. For \<open>time: ["09:00"]\<close> the column is \<open>09:00\<close>, space, em-dash, space.
\<close>

theorem render_slot_time_list:
  assumes "py_get slot (PStr (ascii ''time'')) (PList []) = Inr t"
    and "t = PList xs \<or> t = PNone \<and> xs = []"
    and "list_all text_or_null (take 2 xs)"
  shows "render_slot env slot =
     (case slot_lectures env slot of
        Inl e \<Rightarrow> Inl e
      | Inr lectures_html \<Rightarrow>
          Inr (slot_html (time_column (display_start_end env xs)) lectures_html))"
proof -
  have "\<exists>start end. start_end t = Inr (start, end) \<and>
          time_str env start end = time_column (display_start_end env xs)"
  proof (cases xs)
    case Nil
    with assms(2) show ?thesis
      by (auto simp: start_end_def time_str_def py_or_def time_column_def)
  next
    case (Cons a ys)
    note a = this
    show ?thesis
    proof (cases ys)
      case Nil
      with a assms(2,3) show ?thesis
        by (auto simp: start_end_def time_str_text text_or_null_def)
    next
      case (Cons b zs)
      with a assms(2,3) show ?thesis
        by (auto simp: start_end_def time_str_text)
    qed
  qed
  with assms(1) show ?thesis
    by (auto simp: render_slot_def split: sum.splits)
qed

theorem render_slot_time_list_witness:
  "py_get (PDict [(PStr (ascii ''time''), PList [PStr (ascii ''09:00'')])])
     (PStr (ascii ''time'')) (PList []) = Inr (PList [PStr (ascii ''09:00'')]) \<and>
   list_all text_or_null (take 2 [PStr (ascii ''09:00'')]) \<and>
   render_slot plain_builtins (PDict [(PStr (ascii ''time''), PList [PStr (ascii ''09:00'')])]) =
     Inr (slot_html (ascii ''09:00 '' @ em_dash @ ascii '' '') []) \<and>
   render_slot plain_builtins (PDict []) = Inr (slot_html em_dash [])"
  using render_slot_time_list
    [of "PDict [(PStr (ascii ''time''), PList [PStr (ascii ''09:00'')])]"
        "PList [PStr (ascii ''09:00'')]" "[PStr (ascii ''09:00'')]" plain_builtins]
    render_slot_time_list [of "PDict []" "PList []" "[]" plain_builtins]
  by (simp add: ascii_def slot_lectures_def py_or_def text_or_null_def time_column_def
      escape_def html_escape_Cons escape_char_def)

text \<open>
  The rule of claim C2 as it is stated fails on the code. For \<open>time: [0]\<close> the start is
  the integer 0, whose text \<open>0\<close> is not empty, and the column shows the em-dash all the
  same, because the code tests the truth value of the unescaped start and end. For
  \<open>time: ["09:00"]\<close> the column ends with a space after the em-dash; it is not the text
  ending with the em-dash.
\<close>

theorem render_slot_time_counterexample:
  "render_slot plain_builtins (PDict [(PStr (ascii ''time''), PList [PInt 0])]) =
     Inr (slot_html em_dash []) \<and>
   time_column (display_start_end plain_builtins [PInt 0]) = ascii ''0 '' @ em_dash @ ascii '' '' \<and>
   ascii ''0 '' @ em_dash @ ascii '' '' \<noteq> em_dash \<and>
   render_slot plain_builtins (PDict [(PStr (ascii ''time''), PList [PStr (ascii ''09:00'')])]) =
     Inr (slot_html (ascii ''09:00 '' @ em_dash @ ascii '' '') []) \<and>
   ascii ''09:00 '' @ em_dash @ ascii '' '' \<noteq> ascii ''09:00 '' @ em_dash"
  by (simp add: render_slot_def start_end_def time_str_def py_or_def slot_lectures_def
      time_column_def escape_def str_int_def ascii_def em_dash_def html_escape_Cons escape_char_def)

section \<open>Properties of the day normalizer and the day sections\<close>

lemma key_eq_sym: "key_eq a b = key_eq b a"
  by (cases "(a, b)" rule: key_eq.cases) auto

lemma key_eq_text [simp]: "key_eq k (PStr s) \<longleftrightarrow> k = PStr s"
  by (cases k) simp_all

lemma py_in_Cons: "py_in d (k # ks) \<longleftrightarrow> key_eq k d \<or> py_in d ks"
  by (simp add: py_in_def)

lemma py_in_text [simp]: "py_in (PStr s) ks \<longleftrightarrow> PStr s \<in> set ks"
  by (induction ks) (auto simp: py_in_def)

lemma py_in_rev [simp]: "py_in d (rev ks) = py_in d ks"
  by (simp add: py_in_def list_ex_iff)

lemma canonical_loop_filter:
  "canonical_loop keys ds (present, seen) =
     (present @ filter (\<lambda>d. py_in d keys) ds, rev (filter (\<lambda>d. py_in d keys) ds) @ seen)"
  by (induction ds arbitrary: present seen) simp_all

lemma remaining_loop_filter:
  "keys_distinct ds \<Longrightarrow>
   fst (remaining_loop ds (present, seen)) = present @ filter (\<lambda>d. \<not> py_in d seen) ds"
proof (induction ds arbitrary: present seen)
  case Nil
  then show ?case by simp
next
  case (Cons d ds)
  have "filter (\<lambda>x. \<not> py_in x (d # seen)) ds = filter (\<lambda>x. \<not> py_in x seen) ds"
  proof (rule filter_cong [OF refl])
    fix x assume "x \<in> set ds"
    with Cons.prems have "\<not> key_eq x d"
      by (auto simp: py_in_def list_ex_iff)
    then show "(\<not> py_in x (d # seen)) = (\<not> py_in x seen)"
      by (simp add: py_in_Cons key_eq_sym)
  qed
  with Cons show ?case by simp
qed

lemma day_order_text: "d \<in> set day_order \<Longrightarrow> \<exists>s. d = PStr s"
  by (auto simp: day_order_def)

lemma py_in_canonical:
  assumes "x \<in> set keys"
  shows "py_in x (filter (\<lambda>d. py_in d keys) day_order) \<longleftrightarrow> x \<in> set day_order"
proof
  assume "py_in x (filter (\<lambda>d. py_in d keys) day_order)"
  then obtain d where d: "d \<in> set day_order" "key_eq d x"
    by (auto simp: py_in_def list_ex_iff)
  from d(1) obtain s where "d = PStr s" by (auto dest: day_order_text)
  with d show "x \<in> set day_order" by (simp add: key_eq_sym [of d x])
next
  assume x: "x \<in> set day_order"
  then obtain s where s: "x = PStr s" by (auto dest: day_order_text)
  with x assms show "py_in x (filter (\<lambda>d. py_in d keys) day_order)"
    by simp
qed

lemma order_days_filter:
  assumes "keys_distinct (map fst week)"
  shows "order_days week =
     filter (\<lambda>d. d \<in> set (map fst week)) day_order @
     filter (\<lambda>k. k \<notin> set day_order) (map fst week)"
proof -
  let ?keys = "map fst week"
  have c: "filter (\<lambda>d. py_in d ?keys) day_order = filter (\<lambda>d. d \<in> set ?keys) day_order"
  proof (rule filter_cong [OF refl])
    fix d assume "d \<in> set day_order"
    then obtain s where "d = PStr s" by (auto dest: day_order_text)
    then show "py_in d ?keys = (d \<in> set ?keys)" by (simp only: py_in_text)
  qed
  have r: "filter (\<lambda>d. \<not> py_in d (filter (\<lambda>d. py_in d ?keys) day_order)) ?keys =
           filter (\<lambda>k. k \<notin> set day_order) ?keys"
    by (rule filter_cong [OF refl]) (simp add: py_in_canonical)
  show ?thesis
    unfolding order_days_def canonical_loop_filter
    using remaining_loop_filter [OF assms] c r by simp
qed

lemma days_html_parts_filter:
  "days_html_parts env week ds =
     map_err (\<lambda>d. render_day env d (day_slots week d))
       (filter (\<lambda>d. truthy (day_slots week d)) ds)"
  by (induction ds) (simp_all add: Let_def split: sum.splits)

lemma order_days_empty: "order_days [] = []"
  by (simp add: order_days_def canonical_loop_filter py_in_def)

text \<open>
  Claim C3. For a week mapping (its keys pairwise different), the days are ordered as:
  the conventional weekdays that are keys of the mapping, in the fixed order monday to
  sunday, followed by every other key in the order of the mapping. The day sections are
  rendered in this order, one for each day that has slots. For the empty mapping the
  order is the empty sequence.
\<close>

theorem day_sections_order:
  "order_days [] = [] \<and>
   (keys_distinct (map fst week) \<longrightarrow>
      order_days week =
        filter (\<lambda>d. d \<in> set (map fst week)) day_order @
        filter (\<lambda>k. k \<notin> set day_order) (map fst week)) \<and>
   days_html_parts env week (order_days week) =
     map_err (\<lambda>d. render_day env d (day_slots week d))
       (filter (\<lambda>d. truthy (day_slots week d)) (order_days week))"
  by (simp add: order_days_empty order_days_filter days_html_parts_filter)

theorem day_sections_order_witness:
  "keys_distinct (map fst
     [(PStr (ascii ''zed''), PNone), (PStr (ascii ''sunday''), PNone),
      (PStr (ascii ''extra''), PNone), (PStr (ascii ''monday''), PNone)]) \<and>
   order_days
     [(PStr (ascii ''zed''), PNone), (PStr (ascii ''sunday''), PNone),
      (PStr (ascii ''extra''), PNone), (PStr (ascii ''monday''), PNone)] =
     [PStr (ascii ''monday''), PStr (ascii ''sunday''), PStr (ascii ''zed''), PStr (ascii ''extra'')]"
  using day_sections_order
    [of "[(PStr (ascii ''zed''), PNone), (PStr (ascii ''sunday''), PNone),
          (PStr (ascii ''extra''), PNone), (PStr (ascii ''monday''), PNone)]" plain_builtins]
  by (simp add: day_order_def ascii_def)

text \<open>
  Claim C4, as the code has it. The header of the section of a day whose key is ASCII
  text shows the escaped key with its first character in upper case and all its
  other characters in lower case.
\<close>

theorem day_header_capitalized:
  "list_all (\<lambda>x. x < 128) (c # cs) \<Longrightarrow>
   render_day env (PStr (c # cs)) slots =
     (case py_iter slots of
        Inl e \<Rightarrow> Inl e
      | Inr ss \<Rightarrow>
          (case map_err (render_slot env) ss of
             Inl e \<Rightarrow> Inl e
           | Inr slot_htmls \<Rightarrow>
               Inr (day_section (html_escape (ascii_upper c # map ascii_lower cs))
                      (join [10] slot_htmls))))"
  by (simp add: render_day_def capitalize_def escape_def split: sum.splits)

lemma render_empty_slot: "render_slot env (PDict []) = Inr (slot_html em_dash [])"
  by (simp add: render_slot_def start_end_def time_str_def py_or_def slot_lectures_def)

theorem day_header_capitalized_witness:
  "list_all (\<lambda>x. x < 128) (ascii ''tueSDAY'') \<and>
   render_day plain_builtins (PStr (ascii ''tueSDAY'')) (PList [PDict []]) =
     Inr (day_section (ascii ''Tuesday'') (slot_html em_dash []))"
  using day_header_capitalized [of 116 "ascii ''ueSDAY''" plain_builtins "PList [PDict []]"]
  by (simp add: ascii_def render_empty_slot ascii_upper_def ascii_lower_def
      html_escape_Cons escape_char_def)

text \<open>
  The remainder of the key does not stay unchanged, as claim C4 has it: the key
  \<open>tueSDAY\<close> is shown as \<open>Tuesday\<close>, not as \<open>TueSDAY\<close>.
\<close>

theorem day_header_counterexample:
  "render_day plain_builtins (PStr (ascii ''tueSDAY'')) (PList [PDict []]) =
     Inr (day_section (ascii ''Tuesday'') (slot_html em_dash [])) \<and>
   day_section (ascii ''Tuesday'') (slot_html em_dash []) \<noteq>
     day_section (ascii ''TueSDAY'') (slot_html em_dash [])"
  by (simp add: render_day_def render_empty_slot capitalize_def escape_def ascii_def
      ascii_upper_def ascii_lower_def html_escape_Cons escape_char_def day_section_def)

lemma day_slots_empty:
  "dict_lookup week d = None \<or> dict_lookup week d = Some (PList []) \<or>
   dict_lookup week d = Some PNone \<Longrightarrow> \<not> truthy (day_slots week d)"
  by (auto simp: day_slots_def py_or_def)

text \<open>
  Claim C6. A day that is no key of \<open>week\<close>, or whose slot list is empty or null,
  contributes nothing: the sections are the same as without that day. A document whose
  \<open>week\<close> is absent, empty or null has no day section at all, and its page is the
  skeleton with the empty text for the days.
\<close>

theorem empty_day_no_section:
  "(dict_lookup week d = None \<or> dict_lookup week d = Some (PList []) \<or>
    dict_lookup week d = Some PNone \<longrightarrow>
      days_html_parts env week (before @ d # after) = days_html_parts env week (before @ after)) \<and>
   (dict_lookup doc (PStr (ascii ''week'')) = None \<or>
    dict_lookup doc (PStr (ascii ''week'')) = Some (PDict []) \<or>
    dict_lookup doc (PStr (ascii ''week'')) = Some PNone \<longrightarrow>
      days_html_parts env [] (order_days []) = Inr [] \<and>
      generate_html env (PDict doc) =
        Inr (assemble
               (escape env (case dict_lookup doc (PStr (ascii ''name'')) of
                              None \<Rightarrow> PStr (ascii ''Schedule'') | Some v \<Rightarrow> v))
               (escape env (case dict_lookup doc (PStr (ascii ''semester'')) of
                              None \<Rightarrow> PStr [] | Some v \<Rightarrow> v))
               []))"
  by (auto simp: days_html_parts_filter day_slots_empty generate_html_def py_or_def
      order_days_empty)

theorem empty_day_no_section_witness:
  "dict_lookup [(PStr (ascii ''monday''), PList []), (PStr (ascii ''friday''), PList [PDict []])]
     (PStr (ascii ''monday'')) = Some (PList []) \<and>
   days_html_parts plain_builtins
     [(PStr (ascii ''monday''), PList []), (PStr (ascii ''friday''), PList [PDict []])]
     [PStr (ascii ''monday''), PStr (ascii ''friday'')] =
   Inr [day_section (ascii ''Friday'') (slot_html em_dash [])] \<and>
   dict_lookup [] (PStr (ascii ''week'')) = None \<and>
   generate_html plain_builtins (PDict []) = Inr (assemble (ascii ''Schedule'') [] [])"
  using empty_day_no_section
    [of "[(PStr (ascii ''monday''), PList []), (PStr (ascii ''friday''), PList [PDict []])]"
        "PStr (ascii ''monday'')" plain_builtins "[]" "[PStr (ascii ''friday'')]" "[]"]
  by (simp add: ascii_def day_slots_def py_or_def render_day_def render_empty_slot
      capitalize_def ascii_upper_def ascii_lower_def escape_def html_escape_Cons escape_char_def)

section \<open>Properties of the Page Assembler\<close>

lemma replace_skip:
  "old \<noteq> [] \<Longrightarrow> hd old \<notin> set u \<Longrightarrow> replace old new (u @ r) = u @ replace old new r"
proof (induction u)
  case Nil
  then show ?case by simp
next
  case (Cons x u)
  from Cons.prems have "\<not> prefix old (x # u @ r)"
    by (cases old) auto
  with Cons show ?case by simp
qed

lemma replace_token:
  "old \<noteq> [] \<Longrightarrow> replace old new (old @ r) = new @ replace old new r"
  by (cases old) simp_all

lemma replace_pass:
  assumes "\<not> sublist old u" and "c \<notin> set old"
  shows "replace old new (u @ c # r) = u @ replace old new (c # r)"
  using assms(1)
proof (induction u)
  case Nil
  then show ?case by simp
next
  case (Cons x u)
  have ne: "old \<noteq> []" using Cons.prems by auto
  have "\<not> prefix old ((x # u) @ c # r)"
  proof
    assume "prefix old ((x # u) @ c # r)"
    then consider "prefix old (x # u)" | us where "old = (x # u) @ us" "prefix us (c # r)"
      using prefix_append [of old "x # u" "c # r"] by auto
    then show False
    proof cases
      case 1
      with Cons.prems show False by auto
    next
      case 2
      show False
      proof (cases us)
        case Nil
        with 2 Cons.prems show False by auto
      next
        case (Cons y ys)
        with 2 have "c \<in> set old" by auto
        with assms(2) show False by simp
      qed
    qed
  qed
  moreover from Cons.prems have "\<not> sublist old u"
    by (simp add: sublist_Cons_right)
  ultimately show ?case using Cons.IH ne by simp
qed

lemma replace_pass_append:
  "\<not> sublist old u \<Longrightarrow> r \<noteq> [] \<Longrightarrow> hd r \<notin> set old \<Longrightarrow>
   replace old new (u @ r @ rest) = u @ replace old new (r @ rest)"
  using replace_pass [of old u "hd r" new "tl r @ rest"] by (cases r) simp_all

lemma replace_end:
  "old \<noteq> [] \<Longrightarrow> hd old \<notin> set u \<Longrightarrow> replace old new u = u"
  using replace_skip [of old u new "[]"] by simp

text \<open>The three placeholder tokens: their first character and the characters they avoid.\<close>

lemma token_facts:
  "ascii ''__NAME__'' \<noteq> []" "ascii ''__SEM__'' \<noteq> []" "ascii ''__DAYS_HTML__'' \<noteq> []"
  "hd (ascii ''__NAME__'') = 95" "hd (ascii ''__SEM__'') = 95" "hd (ascii ''__DAYS_HTML__'') = 95"
  "\<not> sublist (ascii ''__NAME__'') (ascii ''__SEM__'')"
  "\<not> sublist (ascii ''__NAME__'') (ascii ''__DAYS_HTML__'')"
  "\<not> sublist (ascii ''__SEM__'') (ascii ''__DAYS_HTML__'')"
  by (simp_all add: ascii_def sublist_Cons_right)

lemma token_chars:
  "c \<in> {10, 32, 41, 60} \<Longrightarrow> c \<notin> set (ascii ''__NAME__'')"
  "c \<in> {10, 32, 41, 60} \<Longrightarrow> c \<notin> set (ascii ''__SEM__'')"
  "c \<in> {10, 32, 41, 60} \<Longrightarrow> c \<notin> set (ascii ''__DAYS_HTML__'')"
  by (auto simp: ascii_def)

lemma three_replacements:
  fixes s0 s1 s2 s3 s4 s5 :: pystr
  assumes u: "95 \<notin> set s0" "95 \<notin> set s1" "95 \<notin> set s2" "95 \<notin> set s3" "95 \<notin> set s4"
      "95 \<notin> set s5"
    and ne: "s1 \<noteq> []" "s2 \<noteq> []" "s3 \<noteq> []" "s4 \<noteq> []" "s5 \<noteq> []"
    and h: "hd s1 \<in> {10, 32, 41, 60}" "hd s2 \<in> {10, 32, 41, 60}" "hd s3 \<in> {10, 32, 41, 60}"
      "hd s4 \<in> {10, 32, 41, 60}" "hd s5 \<in> {10, 32, 41, 60}"
    and n: "\<not> sublist (ascii ''__SEM__'') n" "\<not> sublist (ascii ''__DAYS_HTML__'') n"
    and s: "\<not> sublist (ascii ''__DAYS_HTML__'') s"
  shows "replace (ascii ''__DAYS_HTML__'') d
           (replace (ascii ''__SEM__'') s
              (replace (ascii ''__NAME__'') n
                 (s0 @ ascii ''__NAME__'' @ s1 @ ascii ''__SEM__'' @ s2 @ ascii ''__NAME__'' @ s3 @
                  ascii ''__SEM__'' @ s4 @ ascii ''__DAYS_HTML__'' @ s5))) =
         s0 @ n @ s1 @ s @ s2 @ n @ s3 @ s @ s4 @ d @ s5"
proof -
  note facts = token_facts token_chars u ne h
  have 1: "replace (ascii ''__NAME__'') n
             (s0 @ ascii ''__NAME__'' @ s1 @ ascii ''__SEM__'' @ s2 @ ascii ''__NAME__'' @ s3 @
              ascii ''__SEM__'' @ s4 @ ascii ''__DAYS_HTML__'' @ s5) =
           s0 @ n @ s1 @ ascii ''__SEM__'' @ s2 @ n @ s3 @ ascii ''__SEM__'' @ s4 @
           ascii ''__DAYS_HTML__'' @ s5"
    using facts
    by (simp add: replace_skip replace_token replace_pass_append
        replace_pass_append [where rest = "[]", simplified] replace_end)
  have 2: "replace (ascii ''__SEM__'') s
             (s0 @ n @ s1 @ ascii ''__SEM__'' @ s2 @ n @ s3 @ ascii ''__SEM__'' @ s4 @
              ascii ''__DAYS_HTML__'' @ s5) =
           s0 @ n @ s1 @ s @ s2 @ n @ s3 @ s @ s4 @ ascii ''__DAYS_HTML__'' @ s5"
    using facts n
    by (simp add: replace_skip replace_token replace_pass_append
        replace_pass_append [where rest = "[]", simplified] replace_end)
  have 3: "replace (ascii ''__DAYS_HTML__'') d
             (s0 @ n @ s1 @ s @ s2 @ n @ s3 @ s @ s4 @ ascii ''__DAYS_HTML__'' @ s5) =
           s0 @ n @ s1 @ s @ s2 @ n @ s3 @ s @ s4 @ d @ s5"
    using facts n s
    by (simp add: replace_skip replace_token replace_pass_append
        replace_pass_append [where rest = "[]", simplified] replace_end)
  show ?thesis by (simp only: 1 2 3)
qed


lemma template_split:
  "template =
     seg0 @ ascii ''__NAME__'' @ seg1 @ ascii ''__SEM__'' @ seg2 @ ascii ''__NAME__'' @ seg3 @
     ascii ''__SEM__'' @ seg4 @ ascii ''__DAYS_HTML__'' @ seg5"
  by (simp add: template_def seg0_def seg1_def seg2_def seg3_def seg4_def seg5_def ascii_def)

lemma seg_no_underscore:
  "95 \<notin> set seg0" "95 \<notin> set seg1" "95 \<notin> set seg2" "95 \<notin> set seg3" "95 \<notin> set seg4"
  "95 \<notin> set seg5"
  by (simp_all add: seg0_def seg1_def seg2_def seg3_def seg4_def seg5_def ascii_def)

lemma seg_first:
  "seg1 \<noteq> []" "seg2 \<noteq> []" "seg3 \<noteq> []" "seg4 \<noteq> []" "seg5 \<noteq> []"
  "hd seg1 \<in> {10, 32, 41, 60}" "hd seg2 \<in> {10, 32, 41, 60}" "hd seg3 \<in> {10, 32, 41, 60}"
  "hd seg4 \<in> {10, 32, 41, 60}" "hd seg5 \<in> {10, 32, 41, 60}"
  by (simp_all add: seg1_def seg2_def seg3_def seg4_def seg5_def ascii_def)

lemma assemble_page:
  assumes "\<not> sublist (ascii ''__SEM__'') name" "\<not> sublist (ascii ''__DAYS_HTML__'') name"
    and "\<not> sublist (ascii ''__DAYS_HTML__'') semester"
  shows "assemble name semester days_html = page name semester days_html"
  unfolding assemble_def page_def template_split
  by (rule three_replacements [OF seg_no_underscore seg_first assms])

section \<open>Properties of the page and of the entry point\<close>

lemma field_names_distinct:
  "ascii ''name'' \<noteq> ascii ''semester''" "ascii ''name'' \<noteq> ascii ''week''"
  "ascii ''semester'' \<noteq> ascii ''name''" "ascii ''semester'' \<noteq> ascii ''week''"
  "ascii ''week'' \<noteq> ascii ''name''" "ascii ''week'' \<noteq> ascii ''semester''"
  by (simp_all add: ascii_def)

lemma sample_texts:
  "html_escape (ascii ''__SEM__'') = ascii ''__SEM__''"
  "html_escape (ascii ''Fall'') = ascii ''Fall''"
  "html_escape (ascii ''CS101'') = ascii ''CS101''"
  "html_escape (ascii ''Schedule'') = ascii ''Schedule''"
  by (rule html_escape_unchanged, simp add: ascii_def)+

lemma sample_no_token:
  "\<not> sublist (ascii ''__DAYS_HTML__'') (ascii ''Fall'')"
  "\<not> sublist (ascii ''__SEM__'') (ascii ''CS101'')"
  "\<not> sublist (ascii ''__DAYS_HTML__'') (ascii ''CS101'')"
  "\<not> sublist (ascii ''__SEM__'') (ascii ''Schedule'')"
  "\<not> sublist (ascii ''__DAYS_HTML__'') (ascii ''Schedule'')"
  by (simp_all add: ascii_def sublist_Cons_right)

text \<open>
  Claim C1, as the code has it. Escaping leaves a placeholder token unchanged, so user
  content can contain one. When the escaped name contains neither \<open>__SEM__\<close> nor
  \<open>__DAYS_HTML__\<close> and the escaped semester does not contain \<open>__DAYS_HTML__\<close>, the three
  replacements of line 189 give the skeleton with exactly the intended substitutions,
  whatever the text of the day sections is.
\<close>

theorem assemble_no_collision:
  "\<not> sublist (ascii ''__SEM__'') name \<Longrightarrow> \<not> sublist (ascii ''__DAYS_HTML__'') name \<Longrightarrow>
   \<not> sublist (ascii ''__DAYS_HTML__'') semester \<Longrightarrow>
   assemble name semester days_html = page name semester days_html"
  by (rule assemble_page)

theorem assemble_no_collision_witness:
  "\<not> sublist (ascii ''__SEM__'') (ascii ''CS101'') \<and>
   \<not> sublist (ascii ''__DAYS_HTML__'') (ascii ''CS101'') \<and>
   \<not> sublist (ascii ''__DAYS_HTML__'') (ascii ''Fall'') \<and>
   assemble (ascii ''CS101'') (ascii ''Fall'') (ascii ''__NAME__ __SEM__ __DAYS_HTML__'') =
     page (ascii ''CS101'') (ascii ''Fall'') (ascii ''__NAME__ __SEM__ __DAYS_HTML__'')"
  using assemble_no_collision
    [of "ascii ''CS101''" "ascii ''Fall''" "ascii ''__NAME__ __SEM__ __DAYS_HTML__''"]
  by (simp add: sample_no_token)

lemma assemble_name_is_sem_token:
  "assemble (ascii ''__SEM__'') (ascii ''Fall'') [] = page (ascii ''Fall'') (ascii ''Fall'') []"
  unfolding assemble_def page_def template_split
  using token_facts token_chars seg_no_underscore seg_first sample_no_token
  by (simp add: replace_skip replace_token replace_pass_append
      replace_pass_append [where rest = "[]", simplified] replace_end)

text \<open>
  Claim C1 as it is stated fails: the escaped name \<open>__SEM__\<close> is a placeholder token,
  and in the page of a document with this name and the semester \<open>Fall\<close> the name is
  replaced by the semester at both of its places.
\<close>

theorem assemble_collision_counterexample:
  "escape plain_builtins (PStr (ascii ''__SEM__'')) = ascii ''__SEM__'' \<and>
   generate_html plain_builtins
     (PDict [(PStr (ascii ''name''), PStr (ascii ''__SEM__'')),
             (PStr (ascii ''semester''), PStr (ascii ''Fall''))]) =
     Inr (page (ascii ''Fall'') (ascii ''Fall'') []) \<and>
   page (ascii ''Fall'') (ascii ''Fall'') [] \<noteq> page (ascii ''__SEM__'') (ascii ''Fall'') []"
proof -
  have "page (ascii ''Fall'') (ascii ''Fall'') [] \<noteq> page (ascii ''__SEM__'') (ascii ''Fall'') []"
    by (simp add: page_def ascii_def)
  then show ?thesis
    by (simp add: generate_html_def escape_def sample_texts field_names_distinct py_or_def
        order_days_empty assemble_name_is_sem_token)
qed

lemma generate_html_assemble:
  assumes "generate_html env (PDict doc) = Inr out"
  shows "\<exists>days_html. out =
     assemble
       (case dict_lookup doc (PStr (ascii ''name'')) of
          None \<Rightarrow> ascii ''Schedule'' | Some v \<Rightarrow> escape env v)
       (case dict_lookup doc (PStr (ascii ''semester'')) of
          None \<Rightarrow> [] | Some v \<Rightarrow> escape env v)
       days_html"
proof -
  have n: "escape env (case dict_lookup doc (PStr (ascii ''name'')) of
             None \<Rightarrow> PStr (ascii ''Schedule'') | Some v \<Rightarrow> v) =
           (case dict_lookup doc (PStr (ascii ''name'')) of
              None \<Rightarrow> ascii ''Schedule'' | Some v \<Rightarrow> escape env v)"
    by (simp add: escape_def sample_texts split: option.splits)
  have s: "escape env (case dict_lookup doc (PStr (ascii ''semester'')) of
             None \<Rightarrow> PStr [] | Some v \<Rightarrow> v) =
           (case dict_lookup doc (PStr (ascii ''semester'')) of
              None \<Rightarrow> [] | Some v \<Rightarrow> escape env v)"
    by (simp split: option.splits)
  from assms show ?thesis
    by (auto simp: generate_html_def n s split: sum.splits pyval.splits)
qed

text \<open>
  Claim C5, as the code has it. Let the title be the escaped \<open>name\<close>, with the
  default \<open>Schedule\<close> when \<open>name\<close> is absent, and the subtitle the escaped \<open>semester\<close>,
  empty when absent. For every document whose title contains neither \<open>__SEM__\<close> nor
  \<open>__DAYS_HTML__\<close> and whose subtitle does not contain \<open>__DAYS_HTML__\<close>, the page shows
  this title at the two places of the name and this subtitle at the two places of the
  semester. A \<open>name\<close> that is present but empty or null gives an empty title, not the
  default.
\<close>

theorem page_title_subtitle:
  assumes "generate_html env (PDict doc) = Inr out"
    and "title = (case dict_lookup doc (PStr (ascii ''name'')) of
                    None \<Rightarrow> ascii ''Schedule'' | Some v \<Rightarrow> escape env v)"
    and "subtitle = (case dict_lookup doc (PStr (ascii ''semester'')) of
                       None \<Rightarrow> [] | Some v \<Rightarrow> escape env v)"
    and "\<not> sublist (ascii ''__SEM__'') title" "\<not> sublist (ascii ''__DAYS_HTML__'') title"
    and "\<not> sublist (ascii ''__DAYS_HTML__'') subtitle"
  shows "(\<exists>days_html. out = page title subtitle days_html) \<and>
         (dict_lookup doc (PStr (ascii ''name'')) = Some (PStr []) \<or>
          dict_lookup doc (PStr (ascii ''name'')) = Some PNone \<longrightarrow> title = [])"
proof -
  from generate_html_assemble [OF assms(1)] assms(2,3)
  obtain days_html where "out = assemble title subtitle days_html" by auto
  with assemble_page [OF assms(4-6)] have "out = page title subtitle days_html" by simp
  moreover have "dict_lookup doc (PStr (ascii ''name'')) = Some (PStr []) \<or>
          dict_lookup doc (PStr (ascii ''name'')) = Some PNone \<longrightarrow> title = []"
    using assms(2) by (auto simp: escape_def)
  ultimately show ?thesis by blast
qed

lemma generate_html_samples:
  "generate_html plain_builtins (PDict []) = Inr (assemble (ascii ''Schedule'') [] [])"
  "generate_html plain_builtins (PDict [(PStr (ascii ''name''), PStr [])]) =
     Inr (assemble [] [] [])"
  "generate_html plain_builtins
     (PDict [(PStr (ascii ''name''), PStr (ascii ''CS101'')),
             (PStr (ascii ''semester''), PStr (ascii ''Fall''))]) =
     Inr (assemble (ascii ''CS101'') (ascii ''Fall'') [])"
  by (simp_all add: generate_html_def escape_def sample_texts field_names_distinct py_or_def
      order_days_empty)

theorem page_title_subtitle_witness:
  "generate_html plain_builtins
     (PDict [(PStr (ascii ''name''), PStr (ascii ''CS101'')),
             (PStr (ascii ''semester''), PStr (ascii ''Fall''))]) =
     Inr (assemble (ascii ''CS101'') (ascii ''Fall'') []) \<and>
   (\<exists>days_html. assemble (ascii ''CS101'') (ascii ''Fall'') [] =
      page (ascii ''CS101'') (ascii ''Fall'') days_html) \<and>
   generate_html plain_builtins (PDict []) = Inr (assemble (ascii ''Schedule'') [] []) \<and>
   (\<exists>days_html. assemble (ascii ''Schedule'') [] [] = page (ascii ''Schedule'') [] days_html)"
  using page_title_subtitle
    [of plain_builtins
        "[(PStr (ascii ''name''), PStr (ascii ''CS101'')),
          (PStr (ascii ''semester''), PStr (ascii ''Fall''))]"
        "assemble (ascii ''CS101'') (ascii ''Fall'') []" "ascii ''CS101''" "ascii ''Fall''"]
    page_title_subtitle
    [of plain_builtins "[]" "assemble (ascii ''Schedule'') [] []" "ascii ''Schedule''" "[]"]
  by (simp add: generate_html_samples escape_def sample_texts field_names_distinct
      sample_no_token token_facts)

text \<open>
  Claim C5 as it is stated fails twice. The default is not used for an empty \<open>name\<close>:
  the page of a document whose \<open>name\<close> is the empty text has an empty title, not
  \<open>Schedule\<close>. And the title is not the escaped name for every document: with the name
  \<open>__SEM__\<close> and the semester \<open>Fall\<close> the page shows \<open>Fall\<close> as its title.
\<close>

theorem empty_name_counterexample:
  "generate_html plain_builtins (PDict [(PStr (ascii ''name''), PStr [])]) =
     Inr (page [] [] []) \<and>
   page [] [] [] \<noteq> page (ascii ''Schedule'') [] [] \<and>
   generate_html plain_builtins
     (PDict [(PStr (ascii ''name''), PStr (ascii ''__SEM__'')),
             (PStr (ascii ''semester''), PStr (ascii ''Fall''))]) =
     Inr (page (ascii ''Fall'') (ascii ''Fall'') []) \<and>
   page (ascii ''Fall'') (ascii ''Fall'') [] \<noteq>
     page (escape plain_builtins (PStr (ascii ''__SEM__''))) (ascii ''Fall'') []"
proof -
  have "assemble [] [] [] = page [] [] []"
    by (rule assemble_page) (simp_all add: token_facts)
  moreover have "seg1 @ seg2 @ seg3 @ seg4 @ seg5 \<noteq>
      ascii ''Schedule'' @ seg1 @ seg2 @ ascii ''Schedule'' @ seg3 @ seg4 @ seg5"
    using seg_first by (cases seg1) (auto simp: ascii_def)
  ultimately have empty: "generate_html plain_builtins (PDict [(PStr (ascii ''name''), PStr [])]) =
      Inr (page [] [] []) \<and> page [] [] [] \<noteq> page (ascii ''Schedule'') [] []"
    by (simp add: generate_html_samples page_def)
  have "page (ascii ''Fall'') (ascii ''Fall'') [] \<noteq> page (ascii ''__SEM__'') (ascii ''Fall'') []"
    by (simp add: page_def ascii_def)
  then have token: "generate_html plain_builtins
      (PDict [(PStr (ascii ''name''), PStr (ascii ''__SEM__'')),
              (PStr (ascii ''semester''), PStr (ascii ''Fall''))]) =
      Inr (page (ascii ''Fall'') (ascii ''Fall'') []) \<and>
    page (ascii ''Fall'') (ascii ''Fall'') [] \<noteq>
      page (escape plain_builtins (PStr (ascii ''__SEM__''))) (ascii ''Fall'') []"
    by (simp add: generate_html_def escape_def sample_texts field_names_distinct py_or_def
        order_days_empty assemble_name_is_sem_token)
  from empty token show ?thesis by blast
qed

text \<open>
  Claim C8. When the input path does not exist, \<open>main\<close> ends by \<open>SystemExit\<close> with a
  message that names the path and a non-zero status; the file system is unchanged,
  nothing is printed and the parser plays no part in the result. When the path exists
  and parsing and rendering succeed, the output file holds the page and the status is 0.
\<close>

theorem main_exit:
  "(files w IN_FILE = None \<longrightarrow>
      main env safe_load resolve w =
        (w, SystemExit (ascii ''Input file not found: '' @ IN_FILE)) \<and>
      main env safe_load resolve w = main env safe_load2 resolve2 w \<and>
      exit_status (snd (main env safe_load resolve w)) \<noteq> 0) \<and>
   (files w IN_FILE = Some text \<and> safe_load text = Some v \<and>
    generate_html env (py_or v (PDict [])) = Inr html \<longrightarrow>
      main env safe_load resolve w =
        (w\<lparr>files := (files w)(OUT_FILE \<mapsto> html),
           stdout := stdout w @ [ascii ''Wrote '' @ resolve OUT_FILE]\<rparr>, Done) \<and>
      files (fst (main env safe_load resolve w)) OUT_FILE = Some html \<and>
      exit_status (snd (main env safe_load resolve w)) = 0)"
  by (simp add: main_def)

theorem main_exit_witness:
  "files \<lparr>files = Map.empty, stdout = []\<rparr> IN_FILE = None \<and>
   main plain_builtins (\<lambda>t. Some PNone) (\<lambda>p. ascii ''/'' @ p) \<lparr>files = Map.empty, stdout = []\<rparr> =
     (\<lparr>files = Map.empty, stdout = []\<rparr>,
      SystemExit (ascii ''Input file not found: terrible.yaml'')) \<and>
   files \<lparr>files = [IN_FILE \<mapsto> []], stdout = []\<rparr> IN_FILE = Some [] \<and>
   main plain_builtins (\<lambda>t. Some PNone) (\<lambda>p. ascii ''/'' @ p)
     \<lparr>files = [IN_FILE \<mapsto> []], stdout = []\<rparr> =
     (\<lparr>files = [IN_FILE \<mapsto> [], OUT_FILE \<mapsto> assemble (ascii ''Schedule'') [] []],
       stdout = [ascii ''Wrote /index.html'']\<rparr>, Done)"
  using main_exit
    [of "\<lparr>files = Map.empty, stdout = []\<rparr>" plain_builtins "\<lambda>t. Some PNone"
        "\<lambda>p. ascii ''/'' @ p" "\<lambda>t. Some PNone" "\<lambda>p. ascii ''/'' @ p" "[]" PNone
        "assemble (ascii ''Schedule'') [] []"]
    main_exit
    [of "\<lparr>files = [IN_FILE \<mapsto> []], stdout = []\<rparr>" plain_builtins "\<lambda>t. Some PNone"
        "\<lambda>p. ascii ''/'' @ p" "\<lambda>t. Some PNone" "\<lambda>p. ascii ''/'' @ p" "[]" PNone
        "assemble (ascii ''Schedule'') [] []"]
  by (simp add: py_or_def generate_html_samples IN_FILE_def OUT_FILE_def ascii_def)

end
